theory Spec2Isabelle
  imports Main "HOL-Library.Sublist"
begin

section \<open>The hadith-lookup client \<^verbatim>\<open>deen_api/client.py\<close>\<close>

subsection \<open>Values, dictionaries and strings of the Python runtime\<close>

text \<open>
  JSON-serialisable Python values: what a request body holds and what
  \<^verbatim>\<open>response.json()\<close> returns. A dictionary is an association list in insertion
  order with distinct keys, as a Python \<^verbatim>\<open>dict\<close> is.
\<close>

datatype jvalue =
    JNull
  | JBool bool
  | JInt int
  | JStr string
  | JList "jvalue list"
  | JDict "(string \<times> jvalue) list"

type_synonym dict = "(string \<times> jvalue) list"

text \<open>\<^verbatim>\<open>d[k] = v\<close>: replaces the value of a key in place, appends a new key.\<close>

fun dict_set :: "string \<Rightarrow> 'v \<Rightarrow> (string \<times> 'v) list \<Rightarrow> (string \<times> 'v) list" where
  "dict_set k v [] = [(k, v)]"
| "dict_set k v (p # ps) = (if fst p = k then (k, v) # ps else p # dict_set k v ps)"

text \<open>\<^verbatim>\<open>d.update(e)\<close>: \<^verbatim>\<open>d[k] = v\<close> for every item of \<^verbatim>\<open>e\<close>, in order.\<close>

fun dict_update :: "(string \<times> 'v) list \<Rightarrow> (string \<times> 'v) list \<Rightarrow> (string \<times> 'v) list" where
  "dict_update d [] = d"
| "dict_update d ((k, v) # e) = dict_update (dict_set k v d) e"

definition dict_get :: "dict \<Rightarrow> string \<Rightarrow> jvalue option" where
  "dict_get d k = map_of d k"

definition keys :: "dict \<Rightarrow> string set" where
  "keys d = fst ` set d"

text \<open>\<^verbatim>\<open>s.rstrip(chars)\<close>: drops every trailing character that is in \<^verbatim>\<open>chars\<close>.\<close>

definition rstrip :: "string \<Rightarrow> string \<Rightarrow> string" where
  "rstrip s chars = rev (dropWhile (\<lambda>c. c \<in> set chars) (rev s))"

text \<open>\<^verbatim>\<open>str(n)\<close> of an integer, as an f-string formats it: decimal, \<^verbatim>\<open>-\<close> when negative.\<close>

definition digit_char :: "nat \<Rightarrow> char" where
  "digit_char d = ''0123456789'' ! d"

function str_nat :: "nat \<Rightarrow> string" where
  "str_nat n = (if n < 10 then [digit_char n] else str_nat (n div 10) @ [digit_char (n mod 10)])"
  by pat_completeness auto
termination
  by (relation "measure (\<lambda>n. n)") auto

declare str_nat.simps [simp del]

definition str_int :: "int \<Rightarrow> string" where
  "str_int i = (if i < 0 then ''-'' @ str_nat (nat (- i)) else str_nat (nat i))"

subsection \<open>Exceptions\<close>

text \<open>
  Modelled from the spec: the exception classes of \<^verbatim>\<open>deen_api/exceptions.py\<close>, which
  \<^verbatim>\<open>client.py\<close> imports and which is not among the sources. The spec's error taxonomy
  names the kinds and says that each surfaces to the direct caller, so none of them is a
  \<^verbatim>\<open>requests.exceptions.RequestException\<close>. Every exception carries its message.
  \<open>RequestException d\<close> is any exception of the transport library's own hierarchy with
  \<^verbatim>\<open>str(e) = d\<close>; \<open>ValueError\<close> is Python's; \<open>OtherException\<close> is any other exception a
  collaborator raises.
\<close>

datatype py_exc =
    RequestException string
  | ValueError string
  | AuthenticationError string
  | InsufficientBalanceError string
  | NotFoundError string
  | RateLimitError string
  | ServerError string
  | DeenAPIError string
  | OtherException string

subsection \<open>The transport: requests, responses, the session\<close>

datatype http_method = GET | POST

record request =
  http_method :: http_method
  url :: string
  req_headers :: "(string \<times> string) list"
  json_body :: "dict option"

text \<open>
  A \<^verbatim>\<open>requests.Response\<close>: the fields the client reads. \<open>json\<close> is what calling
  \<^verbatim>\<open>response.json()\<close> gives: the decoded body, or the exception of a body that is not JSON.
\<close>

record response =
  status_code :: int
  body_text :: string
  json :: "py_exc + jvalue"

text \<open>
  A \<^verbatim>\<open>requests.Session\<close>: its default headers, and the log of every request it has
  issued (each entry is one network call).
\<close>

record session =
  headers :: "(string \<times> string) list"
  sent :: "request list"

text \<open>
  Modelled from the spec: the envelope \<^verbatim>\<open>APIResponse\<close> of \<^verbatim>\<open>deen_api/models.py\<close>,
  not among the sources, "exposing a sequence of raw record objects (data)".
\<close>

record APIResponse =
  data :: "jvalue list"

text \<open>
  The collaborators of the client. \<open>transport\<close> answers a request with a response or
  raises. \<open>APIResponse_from_dict\<close> and \<open>Hadith_from_dict\<close> are the decoders of
  \<^verbatim>\<open>deen_api/models.py\<close>, which is not among the sources: they are parameters.
\<close>

record 'h world =
  transport :: "request \<Rightarrow> py_exc + response"
  APIResponse_from_dict :: "jvalue \<Rightarrow> py_exc + APIResponse"
  Hadith_from_dict :: "jvalue \<Rightarrow> py_exc + 'h"

definition session_post :: "'h world \<Rightarrow> session \<Rightarrow> string \<Rightarrow> dict \<Rightarrow> (py_exc + response) \<times> session" where
  "session_post w s u js =
     (let req = \<lparr>http_method = POST, url = u, req_headers = headers s, json_body = Some js\<rparr>
      in (transport w req, s\<lparr>sent := sent s @ [req]\<rparr>))"

definition session_get :: "'h world \<Rightarrow> session \<Rightarrow> string \<Rightarrow> (py_exc + response) \<times> session" where
  "session_get w s u =
     (let req = \<lparr>http_method = GET, url = u, req_headers = headers s, json_body = None\<rparr>
      in (transport w req, s\<lparr>sent := sent s @ [req]\<rparr>))"

subsection \<open>The client\<close>

record client =
  api_key :: string
  base_url :: string
  session :: session

text \<open>
  \<^verbatim>\<open>__init__\<close>. \<open>lib_headers\<close> are the headers a fresh \<^verbatim>\<open>requests.Session()\<close> starts
  with; an absent \<open>base_url\<close> takes the default of the signature.
\<close>

definition init :: "(string \<times> string) list \<Rightarrow> string \<Rightarrow> string option \<Rightarrow> client" where
  "init lib_headers key url_arg =
     (let burl = (case url_arg of None \<Rightarrow> ''https://deen-api.imaniro.com/api/v1'' | Some u \<Rightarrow> u)
      in \<lparr>api_key = key,
          base_url = rstrip burl ''/'',
          session = \<lparr>headers = dict_update lib_headers
                        [(''Content-Type'', ''application/json''), (''X-API-Key'', key)],
                     sent = []\<rparr>\<rparr>)"

text \<open>\<^verbatim>\<open>_handle_response\<close>: the chain of tests on the status code, in the source's order.\<close>

definition handle_response :: "response \<Rightarrow> py_exc + jvalue" where
  "handle_response r =
     (if status_code r = 401 then Inl (AuthenticationError ''Invalid API key'')
      else if status_code r = 402 then Inl (InsufficientBalanceError ''Insufficient balance to process request'')
      else if status_code r = 404 then Inl (NotFoundError ''Resource not found'')
      else if status_code r = 429 then Inl (RateLimitError ''Rate limit exceeded'')
      else if status_code r \<ge> 500 then Inl (ServerError ''Server error occurred'')
      else if status_code r \<noteq> 200 then
        Inl (DeenAPIError (''API error: '' @ str_int (status_code r) @ '' - '' @ body_text r))
      else json r)"

text \<open>
  \<^verbatim>\<open>except requests.exceptions.RequestException as e: raise DeenAPIError(msg + str(e))\<close>
  around a block whose outcome is \<open>r\<close>: every other exception propagates unchanged.
\<close>

definition except_RequestException :: "string \<Rightarrow> py_exc + 'a \<Rightarrow> py_exc + 'a" where
  "except_RequestException msg r =
     (case r of Inl (RequestException d) \<Rightarrow> Inl (DeenAPIError (msg @ d)) | _ \<Rightarrow> r)"

text \<open>\<^verbatim>\<open>_make_request\<close>; \<^verbatim>\<open>params or {}\<close> sends an empty dictionary for \<^verbatim>\<open>None\<close> and for \<^verbatim>\<open>{}\<close>.\<close>

definition make_request :: "'h world \<Rightarrow> client \<Rightarrow> string \<Rightarrow> dict option \<Rightarrow> (py_exc + APIResponse) \<times> client" where
  "make_request w c endpoint params =
     (let u = base_url c @ ''/'' @ endpoint;
          (resp, s) = session_post w (session c) u
                        (case params of None \<Rightarrow> [] | Some p \<Rightarrow> if p = [] then [] else p);
          r = (case resp of
                 Inl e \<Rightarrow> Inl e
               | Inr response \<Rightarrow>
                   (case handle_response response of
                      Inl e \<Rightarrow> Inl e
                    | Inr d \<Rightarrow> APIResponse_from_dict w d))
      in (except_RequestException ''Request failed: '' r, c\<lparr>session := s\<rparr>))"

text \<open>The arguments of \<^verbatim>\<open>get_hadiths\<close>, and the defaults of its signature.\<close>

record search_args =
  book :: "string option"
  hadith_number :: "string option"
  narrator :: "string option"
  category :: "string option"
  authenticity :: "string option"
  language :: string
  max_limit :: int
  kwargs :: dict

definition default_args :: search_args where
  "default_args =
     \<lparr>book = None, hadith_number = None, narrator = None, category = None,
      authenticity = None, language = ''English'', max_limit = 1, kwargs = []\<rparr>"

text \<open>
  What Python lets \<^verbatim>\<open>**kwargs\<close> hold: distinct keys, none of them the name of a
  parameter of the signature (such a keyword binds to the parameter itself).
\<close>

definition param_names :: "string list" where
  "param_names = [''self'', ''book'', ''hadith_number'', ''narrator'', ''category'',
                  ''authenticity'', ''language'', ''max_limit'']"

definition kwargs_ok :: "dict \<Rightarrow> bool" where
  "kwargs_ok kw = (distinct (map fst kw) \<and> list_all (\<lambda>k. k \<notin> set param_names) (map fst kw))"

text \<open>\<^verbatim>\<open>if x is not None: params[k] = x\<close>\<close>

definition set_not_None :: "string \<Rightarrow> string option \<Rightarrow> dict \<Rightarrow> dict" where
  "set_not_None k x params = (case x of None \<Rightarrow> params | Some s \<Rightarrow> dict_set k (JStr s) params)"

text \<open>The dictionary \<^verbatim>\<open>params\<close> that \<^verbatim>\<open>get_hadiths\<close> builds, statement by statement.\<close>

definition get_hadiths_params :: "search_args \<Rightarrow> dict" where
  "get_hadiths_params a =
     (let params = [];
          params = set_not_None ''book'' (book a) params;
          params = set_not_None ''hadithNumber'' (hadith_number a) params;
          params = set_not_None ''narrator'' (narrator a) params;
          params = set_not_None ''category'' (category a) params;
          params = set_not_None ''authenticity'' (authenticity a) params;
          params = dict_set ''language'' (JStr (language a)) params;
          params = dict_set ''maxLimit'' (JInt (max_limit a)) params
      in dict_update params (kwargs a))"

text \<open>
  The list comprehension \<^verbatim>\<open>[Hadith.from_dict(item) for item in response.data]\<close>: the
  first item whose decoding raises ends it with that exception.
\<close>

fun from_dict_each :: "(jvalue \<Rightarrow> py_exc + 'h) \<Rightarrow> jvalue list \<Rightarrow> py_exc + 'h list" where
  "from_dict_each f [] = Inr []"
| "from_dict_each f (item # items) =
     (case f item of
        Inl e \<Rightarrow> Inl e
      | Inr h \<Rightarrow> (case from_dict_each f items of Inl e \<Rightarrow> Inl e | Inr hs \<Rightarrow> Inr (h # hs)))"

definition get_hadiths :: "'h world \<Rightarrow> client \<Rightarrow> search_args \<Rightarrow> (py_exc + 'h list) \<times> client" where
  "get_hadiths w c a =
     (if max_limit a > 500 then (Inl (ValueError ''max_limit cannot exceed 500''), c)
      else if max_limit a < 1 then (Inl (ValueError ''max_limit must be at least 1''), c)
      else
        (let (r, c') = make_request w c ''hadiths'' (Some (get_hadiths_params a))
         in (case r of
               Inl e \<Rightarrow> (Inl e, c')
             | Inr response \<Rightarrow> (from_dict_each (Hadith_from_dict w) (data response), c'))))"

definition check_status :: "'h world \<Rightarrow> client \<Rightarrow> (py_exc + jvalue) \<times> client" where
  "check_status w c =
     (let u = base_url c @ ''/status'';
          (resp, s) = session_get w (session c) u;
          r = (case resp of
                 Inl e \<Rightarrow> Inl e
               | Inr response \<Rightarrow>
                   if status_code response = 200 then json response
                   else Inl (DeenAPIError (''Status check failed: '' @ str_int (status_code response))))
      in (except_RequestException ''Status check request failed: '' r, c\<lparr>session := s\<rparr>))"

text \<open>The request a search call sends, and the one a status check sends.\<close>

definition search_request :: "client \<Rightarrow> search_args \<Rightarrow> request" where
  "search_request c a =
     \<lparr>http_method = POST, url = base_url c @ ''/hadiths'', req_headers = headers (session c),
      json_body = Some (get_hadiths_params a)\<rparr>"

definition status_request :: "client \<Rightarrow> request" where
  "status_request c =
     \<lparr>http_method = GET, url = base_url c @ ''/status'', req_headers = headers (session c),
      json_body = None\<rparr>"

subsection \<open>Sequences of calls on one client\<close>

text \<open>A caller's use of one client over its life: any sequence of the two public methods.\<close>

datatype call = Search search_args | CheckStatus

fun calls :: "'h world \<Rightarrow> client \<Rightarrow> call list \<Rightarrow> client" where
  "calls w c [] = c"
| "calls w c (Search a # cs) = calls w (snd (get_hadiths w c a)) cs"
| "calls w c (CheckStatus # cs) = calls w (snd (check_status w c)) cs"

subsection \<open>An example service\<close>

text \<open>
  Modelled from the spec: the record type \<^verbatim>\<open>Hadith\<close> and the two decoders of
  \<^verbatim>\<open>deen_api/models.py\<close>, not among the sources. "Success envelope must contain a
  \<^verbatim>\<open>data\<close> field holding a sequence of record objects; each record must map to the Hadith
  fields (book, hadith number, narrator, category, authenticity, language, text)", with the
  keys of the spec's example body. They serve as the concrete collaborators on which the
  theorems below are instantiated; the theorems themselves hold for every decoder.
\<close>

datatype Hadith = Hadith string string string string string string string

definition str_field :: "dict \<Rightarrow> string \<Rightarrow> string option" where
  "str_field d k = (case map_of d k of Some (JStr s) \<Rightarrow> Some s | _ \<Rightarrow> None)"

definition Hadith_from_dict_spec :: "jvalue \<Rightarrow> py_exc + Hadith" where
  "Hadith_from_dict_spec j =
     (case j of
        JDict d \<Rightarrow>
          (case those (map (str_field d)
                  [''book'', ''hadithNumber'', ''narrator'', ''category'', ''authenticity'',
                   ''language'', ''text'']) of
             Some [b, n, r, c, a, l, t] \<Rightarrow> Inr (Hadith b n r c a l t)
           | _ \<Rightarrow> Inl (OtherException ''KeyError''))
      | _ \<Rightarrow> Inl (OtherException ''TypeError''))"

definition APIResponse_from_dict_spec :: "jvalue \<Rightarrow> py_exc + APIResponse" where
  "APIResponse_from_dict_spec j =
     (case j of
        JDict d \<Rightarrow>
          (case map_of d ''data'' of
             Some (JList items) \<Rightarrow> Inr \<lparr>data = items\<rparr>
           | _ \<Rightarrow> Inl (OtherException ''KeyError''))
      | _ \<Rightarrow> Inl (OtherException ''TypeError''))"

text \<open>A service that answers every request in the same way.\<close>

definition service :: "py_exc + response \<Rightarrow> Hadith world" where
  "service answer =
     \<lparr>transport = (\<lambda>req. answer),
      APIResponse_from_dict = APIResponse_from_dict_spec,
      Hadith_from_dict = Hadith_from_dict_spec\<rparr>"

definition example_client :: client where
  "example_client = init [] ''secret'' None"

definition record_json :: "string \<Rightarrow> string \<Rightarrow> jvalue" where
  "record_json n t =
     JDict [(''book'', JStr ''Sahih al-Bukhari''), (''hadithNumber'', JStr n),
            (''narrator'', JStr ''Umar''), (''category'', JStr ''intentions''),
            (''authenticity'', JStr ''Sahih''), (''language'', JStr ''English''),
            (''text'', JStr t)]"

definition ok_response :: "jvalue \<Rightarrow> response" where
  "ok_response j = \<lparr>status_code = 200, body_text = ''{...}'', json = Inr j\<rparr>"

definition error_response :: "int \<Rightarrow> string \<Rightarrow> response" where
  "error_response code t =
     \<lparr>status_code = code, body_text = t, json = Inl (RequestException ''Expecting value'')\<rparr>"

section \<open>Properties\<close>

subsection \<open>Dictionaries\<close>

lemma map_of_dict_set: "map_of (dict_set k v d) = (map_of d)(k \<mapsto> v)"
  by (induction d) (auto simp: fun_eq_iff)

lemma keys_dict_set: "fst ` set (dict_set k v d) = insert k (fst ` set d)"
  by (induction d) auto

lemma dict_set_not_Nil: "dict_set k v d \<noteq> []"
  by (cases d) auto

lemma map_of_rev_distinct: "distinct (map fst e) \<Longrightarrow> map_of (rev e) = map_of e"
  by (subst map_of_inject_set) (simp_all add: rev_map [symmetric])

lemma map_of_dict_update_rev: "map_of (dict_update d e) = map_of d ++ map_of (rev e)"
proof (induction e arbitrary: d)
  case Nil
  show ?case by simp
next
  case (Cons p e)
  obtain k v where p: "p = (k, v)" by (cases p)
  have "map_of (dict_update d (p # e)) = map_of (dict_set k v d) ++ map_of (rev e)"
    using Cons.IH [of "dict_set k v d"] p by simp
  also have "\<dots> = map_of d ++ map_of (rev (p # e))"
    by (simp add: p map_of_dict_set fun_eq_iff map_add_def split: option.splits)
  finally show ?case .
qed

lemma map_of_dict_update:
  "distinct (map fst e) \<Longrightarrow> map_of (dict_update d e) = map_of d ++ map_of e"
  by (simp add: map_of_dict_update_rev map_of_rev_distinct)

lemma keys_dict_update: "fst ` set (dict_update d e) = fst ` set d \<union> fst ` set e"
proof -
  have "dom (map_of (dict_update d e)) = dom (map_of d) \<union> dom (map_of (rev e))"
    by (simp add: map_of_dict_update_rev Un_commute)
  then show ?thesis
    by (simp add: dom_map_of_conv_image_fst)
qed

lemma dict_update_not_Nil: "d \<noteq> [] \<Longrightarrow> dict_update d e \<noteq> []"
proof -
  assume "d \<noteq> []"
  then have "fst ` set d \<noteq> {}" by simp
  then have "fst ` set (dict_update d e) \<noteq> {}"
    unfolding keys_dict_update by blast
  then show ?thesis by auto
qed

lemma get_hadiths_params_not_Nil: "get_hadiths_params a \<noteq> []"
  by (simp add: get_hadiths_params_def Let_def dict_update_not_Nil dict_set_not_Nil)

subsection \<open>What one call does\<close>

lemma make_request_hadiths:
  "make_request w c ''hadiths'' (Some (get_hadiths_params a)) =
     (except_RequestException ''Request failed: ''
        (case transport w (search_request c a) of
           Inl e \<Rightarrow> Inl e
         | Inr r \<Rightarrow> (case handle_response r of Inl e \<Rightarrow> Inl e | Inr d \<Rightarrow> APIResponse_from_dict w d)),
      c\<lparr>session := (session c)\<lparr>sent := sent (session c) @ [search_request c a]\<rparr>\<rparr>)"
  by (simp add: make_request_def session_post_def search_request_def Let_def
      get_hadiths_params_not_Nil)

lemma get_hadiths_result:
  assumes "1 \<le> max_limit a" and "max_limit a \<le> 500"
  shows "fst (get_hadiths w c a) =
     (case except_RequestException ''Request failed: ''
        (case transport w (search_request c a) of
           Inl e \<Rightarrow> Inl e
         | Inr r \<Rightarrow> (case handle_response r of Inl e \<Rightarrow> Inl e | Inr d \<Rightarrow> APIResponse_from_dict w d)) of
        Inl e \<Rightarrow> Inl e
      | Inr env \<Rightarrow> from_dict_each (Hadith_from_dict w) (data env))"
  using assms by (simp add: get_hadiths_def make_request_hadiths split: sum.splits)

lemma get_hadiths_client:
  assumes "1 \<le> max_limit a" and "max_limit a \<le> 500"
  shows "snd (get_hadiths w c a) =
     c\<lparr>session := (session c)\<lparr>sent := sent (session c) @ [search_request c a]\<rparr>\<rparr>"
  using assms by (simp add: get_hadiths_def make_request_hadiths split: sum.splits)

lemma get_hadiths_invalid:
  assumes "\<not> (1 \<le> max_limit a \<and> max_limit a \<le> 500)"
  shows "get_hadiths w c a =
     (Inl (ValueError (if max_limit a > 500 then ''max_limit cannot exceed 500''
                       else ''max_limit must be at least 1'')), c)"
  using assms by (auto simp add: get_hadiths_def)

lemma check_status_result:
  "fst (check_status w c) =
     except_RequestException ''Status check request failed: ''
       (case transport w (status_request c) of
          Inl e \<Rightarrow> Inl e
        | Inr r \<Rightarrow> if status_code r = 200 then json r
                   else Inl (DeenAPIError (''Status check failed: '' @ str_int (status_code r))))"
  by (simp add: check_status_def session_get_def status_request_def Let_def)

lemma check_status_client:
  "snd (check_status w c) =
     c\<lparr>session := (session c)\<lparr>sent := sent (session c) @ [status_request c]\<rparr>\<rparr>"
  by (simp add: check_status_def session_get_def status_request_def Let_def)

lemma sublist_end: "sublist xs (ps @ xs)"
  using sublist_appendI [of xs ps "[]"] by simp


lemma sublist_api_error_code: "sublist s (''API error: '' @ s @ '' - '' @ t)"
  by (rule sublist_appendI)

lemma sublist_api_error_text: "sublist t (''API error: '' @ s @ '' - '' @ t)"
proof -
  have "sublist t ((''API error: '' @ s @ '' - '') @ t @ [])"
    by (rule sublist_appendI)
  then show ?thesis by simp
qed

subsection \<open>The status code decides the outcome of a search\<close>

text \<open>
  Claim C1. A search whose request is answered by a response \<open>r\<close> ends as the status code
  of \<open>r\<close> says: 200 hands the decoded JSON body on to be decoded as the envelope; 401, 402,
  404, 429 and every code from 500 raise the authentication, insufficient-balance,
  not-found, rate-limit and server failure; every other code raises the generic failure,
  whose message contains the status code and the raw body text.
\<close>

theorem search_status_code_outcome:
  assumes "1 \<le> max_limit a" and "max_limit a \<le> 500"
    and "transport w (search_request c a) = Inr r"
  shows "(status_code r = 200 \<longrightarrow>
            handle_response r = json r \<and>
            fst (get_hadiths w c a) =
              (case except_RequestException ''Request failed: ''
                      (case json r of Inl e \<Rightarrow> Inl e | Inr d \<Rightarrow> APIResponse_from_dict w d) of
                 Inl e \<Rightarrow> Inl e
               | Inr env \<Rightarrow> from_dict_each (Hadith_from_dict w) (data env)))
       \<and> (status_code r = 401 \<longrightarrow>
            fst (get_hadiths w c a) = Inl (AuthenticationError ''Invalid API key''))
       \<and> (status_code r = 402 \<longrightarrow>
            fst (get_hadiths w c a) =
              Inl (InsufficientBalanceError ''Insufficient balance to process request''))
       \<and> (status_code r = 404 \<longrightarrow>
            fst (get_hadiths w c a) = Inl (NotFoundError ''Resource not found''))
       \<and> (status_code r = 429 \<longrightarrow>
            fst (get_hadiths w c a) = Inl (RateLimitError ''Rate limit exceeded''))
       \<and> (500 \<le> status_code r \<longrightarrow>
            fst (get_hadiths w c a) = Inl (ServerError ''Server error occurred''))
       \<and> (status_code r \<notin> {200, 401, 402, 404, 429} \<and> status_code r < 500 \<longrightarrow>
            fst (get_hadiths w c a) =
              Inl (DeenAPIError (''API error: '' @ str_int (status_code r) @ '' - '' @ body_text r))
            \<and> sublist (str_int (status_code r))
                 (''API error: '' @ str_int (status_code r) @ '' - '' @ body_text r)
            \<and> sublist (body_text r)
                 (''API error: '' @ str_int (status_code r) @ '' - '' @ body_text r))"
proof -
  have res: "fst (get_hadiths w c a) =
     (case except_RequestException ''Request failed: ''
             (case handle_response r of Inl e \<Rightarrow> Inl e | Inr d \<Rightarrow> APIResponse_from_dict w d) of
        Inl e \<Rightarrow> Inl e
      | Inr env \<Rightarrow> from_dict_each (Hadith_from_dict w) (data env))"
    using assms by (simp add: get_hadiths_result)
  have ok: "status_code r = 200 \<Longrightarrow> handle_response r = json r"
    by (simp add: handle_response_def)
  have c401: "status_code r = 401 \<Longrightarrow>
      fst (get_hadiths w c a) = Inl (AuthenticationError ''Invalid API key'')"
    by (simp add: res handle_response_def except_RequestException_def)
  have c402: "status_code r = 402 \<Longrightarrow>
      fst (get_hadiths w c a) =
        Inl (InsufficientBalanceError ''Insufficient balance to process request'')"
    by (simp add: res handle_response_def except_RequestException_def)
  have c404: "status_code r = 404 \<Longrightarrow>
      fst (get_hadiths w c a) = Inl (NotFoundError ''Resource not found'')"
    by (simp add: res handle_response_def except_RequestException_def)
  have c429: "status_code r = 429 \<Longrightarrow>
      fst (get_hadiths w c a) = Inl (RateLimitError ''Rate limit exceeded'')"
    by (simp add: res handle_response_def except_RequestException_def)
  have c5xx: "500 \<le> status_code r \<Longrightarrow>
      fst (get_hadiths w c a) = Inl (ServerError ''Server error occurred'')"
    by (simp add: res handle_response_def except_RequestException_def)
  have other: "status_code r \<notin> {200, 401, 402, 404, 429} \<and> status_code r < 500 \<Longrightarrow>
      fst (get_hadiths w c a) =
        Inl (DeenAPIError (''API error: '' @ str_int (status_code r) @ '' - '' @ body_text r))"
    by (simp add: res handle_response_def except_RequestException_def)
  show ?thesis
    using ok res c401 c402 c404 c429 c5xx other
      sublist_api_error_code [of "str_int (status_code r)" "body_text r"]
      sublist_api_error_text [of "body_text r" "str_int (status_code r)"]
    by simp
qed

text \<open>The spec's example: an unmapped 403.\<close>

theorem search_status_code_outcome_witness:
  "fst (get_hadiths (service (Inr (error_response 403 ''Forbidden''))) example_client default_args)
     = Inl (DeenAPIError ''API error: 403 - Forbidden'')
   \<and> sublist ''403'' ''API error: 403 - Forbidden''
   \<and> sublist ''Forbidden'' ''API error: 403 - Forbidden''"
  using search_status_code_outcome
    [of default_args "service (Inr (error_response 403 ''Forbidden''))" example_client
        "error_response 403 ''Forbidden''"]
  by (simp add: default_args_def service_def error_response_def str_int_def str_nat.simps
      digit_char_def)

subsection \<open>The limit is validated before anything is sent\<close>

text \<open>
  Claim C2. With \<open>max_limit\<close> in [1, 500] a search issues a network call: the session's log
  grows by the search request. With \<open>max_limit\<close> outside [1, 500] it fails with a
  \<open>ValueError\<close> and the client, with the log of its session, is as before: no call is issued.
\<close>

theorem max_limit_validation:
  "(1 \<le> max_limit a \<and> max_limit a \<le> 500 \<longrightarrow>
      sent (session (snd (get_hadiths w c a))) = sent (session c) @ [search_request c a])
   \<and> (max_limit a < 1 \<or> 500 < max_limit a \<longrightarrow>
      (\<exists>m. fst (get_hadiths w c a) = Inl (ValueError m))
      \<and> snd (get_hadiths w c a) = c
      \<and> sent (session (snd (get_hadiths w c a))) = sent (session c))"
proof (intro conjI impI)
  assume "1 \<le> max_limit a \<and> max_limit a \<le> 500"
  then show "sent (session (snd (get_hadiths w c a))) = sent (session c) @ [search_request c a]"
    by (simp add: get_hadiths_client)
next
  assume bad: "max_limit a < 1 \<or> 500 < max_limit a"
  then have inv: "get_hadiths w c a =
     (Inl (ValueError (if max_limit a > 500 then ''max_limit cannot exceed 500''
                       else ''max_limit must be at least 1'')), c)"
    by (intro get_hadiths_invalid) auto
  show "\<exists>m. fst (get_hadiths w c a) = Inl (ValueError m)"
    by (simp add: inv)
  show "snd (get_hadiths w c a) = c"
    by (simp add: inv)
  then show "sent (session (snd (get_hadiths w c a))) = sent (session c)"
    by simp
qed

theorem max_limit_validation_witness:
  "sent (session (snd (get_hadiths (service (Inl (RequestException ''refused''))) example_client
       (default_args\<lparr>max_limit := 500\<rparr>))))
     = [search_request example_client (default_args\<lparr>max_limit := 500\<rparr>)]
   \<and> fst (get_hadiths (service (Inl (RequestException ''refused''))) example_client
        (default_args\<lparr>max_limit := 0\<rparr>)) = Inl (ValueError ''max_limit must be at least 1'')
   \<and> sent (session (snd (get_hadiths (service (Inl (RequestException ''refused''))) example_client
       (default_args\<lparr>max_limit := 0\<rparr>)))) = []
   \<and> fst (get_hadiths (service (Inl (RequestException ''refused''))) example_client
        (default_args\<lparr>max_limit := 501\<rparr>)) = Inl (ValueError ''max_limit cannot exceed 500'')
   \<and> sent (session (snd (get_hadiths (service (Inl (RequestException ''refused''))) example_client
       (default_args\<lparr>max_limit := 501\<rparr>)))) = []"
  using
    max_limit_validation [of "default_args\<lparr>max_limit := 500\<rparr>"
      "service (Inl (RequestException ''refused''))" example_client]
    max_limit_validation [of "default_args\<lparr>max_limit := 0\<rparr>"
      "service (Inl (RequestException ''refused''))" example_client]
    max_limit_validation [of "default_args\<lparr>max_limit := 501\<rparr>"
      "service (Inl (RequestException ''refused''))" example_client]
  by (simp add: default_args_def example_client_def init_def get_hadiths_def)

subsection \<open>A successful search decodes the records one by one, in order\<close>

lemma except_RequestException_eq_Inr:
  "except_RequestException m r = Inr x \<longleftrightarrow> r = Inr x"
  by (auto simp: except_RequestException_def split: sum.splits py_exc.splits)

lemma handle_response_eq_Inr:
  "handle_response r = Inr j \<longleftrightarrow> status_code r = 200 \<and> json r = Inr j"
  by (auto simp: handle_response_def)

lemma from_dict_each_eq_Inr: "from_dict_each f xs = Inr hs \<longleftrightarrow> map f xs = map Inr hs"
proof (induction xs arbitrary: hs)
  case Nil
  show ?case by auto
next
  case (Cons x xs)
  show ?case
  proof (cases "f x")
    case (Inl e)
    then show ?thesis by (cases hs) auto
  next
    case (Inr h)
    show ?thesis
    proof (cases "from_dict_each f xs")
      case (Inl e)
      with Inr Cons.IH show ?thesis by (cases hs) auto
    next
      case r: (Inr hs')
      with Inr Cons.IH [of hs'] Cons.IH show ?thesis by (cases hs) auto
    qed
  qed
qed

text \<open>
  Claim C4. When a search returns a list \<open>hs\<close>, the transport answered with status 200, the
  body decoded to an envelope, and \<open>hs\<close> is the envelope's record list \<open>data\<close> decoded
  item by item with the one decoder \<open>Hadith_from_dict\<close>, whatever the query was: as many
  items, in the same order, the i-th from the i-th, none dropped, merged or moved.
\<close>

theorem search_returns_one_hadith_per_record:
  assumes "fst (get_hadiths w c a) = Inr hs"
  shows "\<exists>r j env. transport w (search_request c a) = Inr r \<and> status_code r = 200
           \<and> json r = Inr j \<and> APIResponse_from_dict w j = Inr env
           \<and> length hs = length (data env)
           \<and> map (Hadith_from_dict w) (data env) = map Inr hs
           \<and> (\<forall>i < length hs. Hadith_from_dict w (data env ! i) = Inr (hs ! i))"
proof -
  have rng: "1 \<le> max_limit a \<and> max_limit a \<le> 500"
  proof (rule ccontr)
    assume "\<not> (1 \<le> max_limit a \<and> max_limit a \<le> 500)"
    then have "\<exists>e. fst (get_hadiths w c a) = Inl e"
      by (simp add: get_hadiths_invalid)
    with assms show False by auto
  qed
  then have "(case except_RequestException ''Request failed: ''
        (case transport w (search_request c a) of
           Inl e \<Rightarrow> Inl e
         | Inr r \<Rightarrow> (case handle_response r of Inl e \<Rightarrow> Inl e | Inr d \<Rightarrow> APIResponse_from_dict w d)) of
        Inl e \<Rightarrow> Inl e
      | Inr env \<Rightarrow> from_dict_each (Hadith_from_dict w) (data env)) = Inr hs"
    using assms get_hadiths_result [of a w c] by simp
  then obtain env where
    env: "except_RequestException ''Request failed: ''
        (case transport w (search_request c a) of
           Inl e \<Rightarrow> Inl e
         | Inr r \<Rightarrow> (case handle_response r of Inl e \<Rightarrow> Inl e | Inr d \<Rightarrow> APIResponse_from_dict w d))
        = Inr env"
    and each: "from_dict_each (Hadith_from_dict w) (data env) = Inr hs"
    by (auto split: sum.splits)
  from env have "(case transport w (search_request c a) of
           Inl e \<Rightarrow> Inl e
         | Inr r \<Rightarrow> (case handle_response r of Inl e \<Rightarrow> Inl e | Inr d \<Rightarrow> APIResponse_from_dict w d))
        = Inr env"
    by (simp only: except_RequestException_eq_Inr)
  then obtain r j where r: "transport w (search_request c a) = Inr r"
    and j: "handle_response r = Inr j" and d: "APIResponse_from_dict w j = Inr env"
    by (auto split: sum.splits)
  from j have ok: "status_code r = 200" "json r = Inr j"
    by (simp_all add: handle_response_eq_Inr)
  from each have m: "map (Hadith_from_dict w) (data env) = map Inr hs"
    by (simp add: from_dict_each_eq_Inr)
  then have len: "length hs = length (data env)"
    using length_map [of "Hadith_from_dict w" "data env"] length_map [of Inr hs] by simp
  have nth: "\<forall>i < length hs. Hadith_from_dict w (data env ! i) = Inr (hs ! i)"
  proof (intro allI impI)
    fix i assume i: "i < length hs"
    then have "map (Hadith_from_dict w) (data env) ! i = map Inr hs ! i"
      using m by simp
    with i len show "Hadith_from_dict w (data env ! i) = Inr (hs ! i)"
      by simp
  qed
  from r ok d len m nth show ?thesis by blast
qed

text \<open>The spec's example body, with two records.\<close>

lemma example_search_two_records:
  "fst (get_hadiths
          (service (Inr (ok_response (JDict [(''data'',
             JList [record_json ''1'' ''first'', record_json ''2'' ''second''])]))))
          example_client default_args)
   = Inr [Hadith ''Sahih al-Bukhari'' ''1'' ''Umar'' ''intentions'' ''Sahih'' ''English'' ''first'',
          Hadith ''Sahih al-Bukhari'' ''2'' ''Umar'' ''intentions'' ''Sahih'' ''English'' ''second'']"
  by (simp add: get_hadiths_result default_args_def service_def ok_response_def
      handle_response_def except_RequestException_def APIResponse_from_dict_spec_def
      Hadith_from_dict_spec_def str_field_def record_json_def)


theorem search_returns_one_hadith_per_record_witness:
  "fst (get_hadiths
          (service (Inr (ok_response (JDict [(''data'',
             JList [record_json ''1'' ''first'', record_json ''2'' ''second''])]))))
          example_client default_args)
   = Inr [Hadith ''Sahih al-Bukhari'' ''1'' ''Umar'' ''intentions'' ''Sahih'' ''English'' ''first'',
          Hadith ''Sahih al-Bukhari'' ''2'' ''Umar'' ''intentions'' ''Sahih'' ''English'' ''second'']
   \<and> (\<exists>r j env.
         transport (service (Inr (ok_response (JDict [(''data'',
             JList [record_json ''1'' ''first'', record_json ''2'' ''second''])]))))
           (search_request example_client default_args) = Inr r
         \<and> status_code r = 200 \<and> json r = Inr j
         \<and> APIResponse_from_dict (service (Inr (ok_response (JDict [(''data'',
             JList [record_json ''1'' ''first'', record_json ''2'' ''second''])])))) j = Inr env
         \<and> length [Hadith ''Sahih al-Bukhari'' ''1'' ''Umar'' ''intentions'' ''Sahih'' ''English'' ''first'',
                    Hadith ''Sahih al-Bukhari'' ''2'' ''Umar'' ''intentions'' ''Sahih'' ''English'' ''second'']
             = length (data env)
         \<and> data env = [record_json ''1'' ''first'', record_json ''2'' ''second''])"
proof -
  let ?w = "service (Inr (ok_response (JDict [(''data'',
             JList [record_json ''1'' ''first'', record_json ''2'' ''second''])])))"
  let ?hs = "[Hadith ''Sahih al-Bukhari'' ''1'' ''Umar'' ''intentions'' ''Sahih'' ''English'' ''first'',
          Hadith ''Sahih al-Bukhari'' ''2'' ''Umar'' ''intentions'' ''Sahih'' ''English'' ''second'']"
  have h: "fst (get_hadiths ?w example_client default_args) = Inr ?hs"
    by (rule example_search_two_records)
  from search_returns_one_hadith_per_record [OF h]
  obtain r j env where
    r: "transport ?w (search_request example_client default_args) = Inr r"
    and ok: "status_code r = 200" "json r = Inr j"
    and env: "APIResponse_from_dict ?w j = Inr env"
    and len: "length ?hs = length (data env)"
    by blast
  from r have "r = ok_response (JDict [(''data'',
             JList [record_json ''1'' ''first'', record_json ''2'' ''second''])])"
    by (simp add: service_def)
  with ok have "j = JDict [(''data'',
             JList [record_json ''1'' ''first'', record_json ''2'' ''second''])]"
    by (simp add: ok_response_def)
  with env have "data env = [record_json ''1'' ''first'', record_json ''2'' ''second'']"
    by (auto simp add: service_def APIResponse_from_dict_spec_def)
  with h r ok env len show ?thesis by blast
qed

subsection \<open>The status check\<close>

text \<open>
  Claim C5. A status check whose request is answered with status 200 returns the decoded
  JSON body as it is; answered with any other status it fails with the generic
  \<open>DeenAPIError\<close>, whose message contains the status code (so never with one of the
  specific errors of a search); when the transport fails it fails with the generic
  \<open>DeenAPIError\<close>, whose message contains the description of the transport's failure.
\<close>

theorem check_status_outcome:
  "(transport w (status_request c) = Inr r \<and> status_code r = 200 \<and> json r = Inr j \<longrightarrow>
      fst (check_status w c) = Inr j)
   \<and> (transport w (status_request c) = Inr r \<and> status_code r \<noteq> 200 \<longrightarrow>
      fst (check_status w c) =
        Inl (DeenAPIError (''Status check failed: '' @ str_int (status_code r)))
      \<and> sublist (str_int (status_code r)) (''Status check failed: '' @ str_int (status_code r)))
   \<and> (transport w (status_request c) = Inl (RequestException d) \<longrightarrow>
      fst (check_status w c) = Inl (DeenAPIError (''Status check request failed: '' @ d))
      \<and> sublist d (''Status check request failed: '' @ d))"
proof (intro conjI impI)
  assume "transport w (status_request c) = Inr r \<and> status_code r = 200 \<and> json r = Inr j"
  then show "fst (check_status w c) = Inr j"
    by (simp add: check_status_result except_RequestException_def)
next
  assume "transport w (status_request c) = Inr r \<and> status_code r \<noteq> 200"
  then show "fst (check_status w c) =
        Inl (DeenAPIError (''Status check failed: '' @ str_int (status_code r)))"
    by (simp add: check_status_result except_RequestException_def)
next
  show "sublist (str_int (status_code r)) (''Status check failed: '' @ str_int (status_code r))"
    by (rule sublist_end)
next
  assume "transport w (status_request c) = Inl (RequestException d)"
  then show "fst (check_status w c) = Inl (DeenAPIError (''Status check request failed: '' @ d))"
    by (simp add: check_status_result except_RequestException_def)
next
  show "sublist d (''Status check request failed: '' @ d)"
    by (rule sublist_end)
qed

theorem check_status_outcome_witness:
  "fst (check_status (service (Inr (ok_response (JDict [(''status'', JStr ''ok'')])))) example_client)
     = Inr (JDict [(''status'', JStr ''ok'')])
   \<and> fst (check_status (service (Inr (error_response 401 ''Unauthorized''))) example_client)
     = Inl (DeenAPIError ''Status check failed: 401'')
   \<and> fst (check_status (service (Inl (RequestException ''Connection refused''))) example_client)
     = Inl (DeenAPIError ''Status check request failed: Connection refused'')"
  using
    check_status_outcome [of "service (Inr (ok_response (JDict [(''status'', JStr ''ok'')])))"
      example_client "ok_response (JDict [(''status'', JStr ''ok'')])"
      "JDict [(''status'', JStr ''ok'')]" "''x''"]
    check_status_outcome [of "service (Inr (error_response 401 ''Unauthorized''))"
      example_client "error_response 401 ''Unauthorized''" JNull "''x''"]
    check_status_outcome [of "service (Inl (RequestException ''Connection refused''))"
      example_client "error_response 401 ''Unauthorized''" JNull "''Connection refused''"]
  by (simp add: service_def ok_response_def error_response_def str_int_def str_nat.simps
      digit_char_def)

subsection \<open>Transport failures during a search\<close>

text \<open>
  Claim C6. When the transport fails while a search attempts its request (the request
  itself fails, or the body of a 200 response cannot be decoded and the transport library
  raises its own exception for it), the search fails with the generic \<open>DeenAPIError\<close>
  and the description of the original failure is part of the new message.
\<close>

theorem search_transport_failure_reraised:
  assumes "1 \<le> max_limit a" and "max_limit a \<le> 500"
  shows "(transport w (search_request c a) = Inl (RequestException d) \<longrightarrow>
            fst (get_hadiths w c a) = Inl (DeenAPIError (''Request failed: '' @ d))
            \<and> sublist d (''Request failed: '' @ d))
       \<and> (transport w (search_request c a) = Inr r \<and> status_code r = 200
            \<and> json r = Inl (RequestException d) \<longrightarrow>
            fst (get_hadiths w c a) = Inl (DeenAPIError (''Request failed: '' @ d))
            \<and> sublist d (''Request failed: '' @ d))"
proof -
  have sub: "sublist d (''Request failed: '' @ d)"
    by (rule sublist_end)
  have down: "transport w (search_request c a) = Inl (RequestException d) \<Longrightarrow>
      fst (get_hadiths w c a) = Inl (DeenAPIError (''Request failed: '' @ d))"
    using assms by (simp add: get_hadiths_result except_RequestException_def)
  have malformed: "transport w (search_request c a) = Inr r \<and> status_code r = 200
        \<and> json r = Inl (RequestException d) \<Longrightarrow>
      fst (get_hadiths w c a) = Inl (DeenAPIError (''Request failed: '' @ d))"
    using assms
    by (simp add: get_hadiths_result handle_response_def except_RequestException_def)
  from sub down malformed show ?thesis by blast
qed

theorem search_transport_failure_reraised_witness:
  "fst (get_hadiths (service (Inl (RequestException ''Connection refused''))) example_client
          default_args)
     = Inl (DeenAPIError ''Request failed: Connection refused'')
   \<and> sublist ''Connection refused'' ''Request failed: Connection refused''
   \<and> fst (get_hadiths
            (service (Inr \<lparr>status_code = 200, body_text = ''<html>'',
                          json = Inl (RequestException ''Expecting value'')\<rparr>))
            example_client default_args)
     = Inl (DeenAPIError ''Request failed: Expecting value'')"
  using
    search_transport_failure_reraised [of default_args
      "service (Inl (RequestException ''Connection refused''))" example_client
      "''Connection refused''" "error_response 200 ''x''"]
    search_transport_failure_reraised [of default_args
      "service (Inr \<lparr>status_code = 200, body_text = ''<html>'',
                          json = Inl (RequestException ''Expecting value'')\<rparr>)" example_client
      "''Expecting value''" "\<lparr>status_code = 200, body_text = ''<html>'',
                          json = Inl (RequestException ''Expecting value'')\<rparr>"]
  by (simp add: default_args_def service_def)

subsection \<open>The request body of a search\<close>

lemma get_hadiths_params_default:
  "get_hadiths_params default_args = [(''language'', JStr ''English''), (''maxLimit'', JInt 1)]"
  by (simp add: get_hadiths_params_def default_args_def set_not_None_def)

text \<open>
  Claim C7. A search with no argument beyond the defaults of the signature sends the body
  \<^verbatim>\<open>{"language": "English", "maxLimit": 1}\<close>: these two keys and no other.
\<close>

theorem default_request_body:
  "get_hadiths_params default_args = [(''language'', JStr ''English''), (''maxLimit'', JInt 1)]
   \<and> keys (get_hadiths_params default_args) = {''language'', ''maxLimit''}
   \<and> sent (session (snd (get_hadiths w c default_args))) =
       sent (session c) @
         [\<lparr>http_method = POST, url = base_url c @ ''/hadiths'',
           req_headers = headers (session c),
           json_body = Some [(''language'', JStr ''English''), (''maxLimit'', JInt 1)]\<rparr>]"
proof (intro conjI)
  show "get_hadiths_params default_args = [(''language'', JStr ''English''), (''maxLimit'', JInt 1)]"
    by (rule get_hadiths_params_default)
  show "keys (get_hadiths_params default_args) = {''language'', ''maxLimit''}"
    by (simp add: get_hadiths_params_default keys_def)
  have "1 \<le> max_limit default_args" and "max_limit default_args \<le> 500"
    by (simp_all add: default_args_def)
  then have "snd (get_hadiths w c default_args) =
      c\<lparr>session := (session c)\<lparr>sent := sent (session c) @ [search_request c default_args]\<rparr>\<rparr>"
    by (rule get_hadiths_client)
  then show "sent (session (snd (get_hadiths w c default_args))) =
       sent (session c) @
         [\<lparr>http_method = POST, url = base_url c @ ''/hadiths'',
           req_headers = headers (session c),
           json_body = Some [(''language'', JStr ''English''), (''maxLimit'', JInt 1)]\<rparr>]"
    by (simp add: search_request_def get_hadiths_params_default)
qed

subsection \<open>The configuration of a client\<close>

text \<open>
  What \<^verbatim>\<open>rstrip('/')\<close> leaves: the argument without its trailing slashes, all of them.
\<close>

lemma rstrip_slash_decompose: "\<exists>n. s = rstrip s ''/'' @ replicate n (CHR ''/'')"
proof -
  let ?P = "\<lambda>c. c \<in> set ''/''"
  let ?t = "takeWhile ?P (rev s)"
  have "s = rev (rev s)"
    by simp
  also have "\<dots> = rev (?t @ dropWhile ?P (rev s))"
    by (simp only: takeWhile_dropWhile_id)
  also have "\<dots> = rev (dropWhile ?P (rev s)) @ rev ?t"
    by (rule rev_append)
  finally have s: "s = rstrip s ''/'' @ rev ?t"
    by (simp only: rstrip_def)
  have "\<forall>y \<in> set (rev ?t). y = CHR ''/''"
    by (auto dest: set_takeWhileD)
  then have "replicate (length (rev ?t)) (CHR ''/'') = rev ?t"
    by (rule replicate_length_same)
  with s have "s = rstrip s ''/'' @ replicate (length (rev ?t)) (CHR ''/'')"
    by simp
  then show ?thesis ..
qed

lemma rstrip_slash_no_trailing: "\<not> suffix ''/'' (rstrip s ''/'')"
proof
  let ?P = "\<lambda>c. c \<in> set ''/''"
  let ?d = "dropWhile ?P (rev s)"
  assume "suffix ''/'' (rstrip s ''/'')"
  then obtain zs where zs: "rev ?d = zs @ ''/''"
    by (auto simp: suffix_def rstrip_def)
  then have "rev (rev ?d) = rev (zs @ ''/'')"
    by (rule arg_cong)
  then have d: "?d = CHR ''/'' # rev zs"
    by simp
  then have "?d \<noteq> []" by simp
  then have "\<not> ?P (hd ?d)"
    by (rule hd_dropWhile)
  with d show False by simp
qed

lemma get_hadiths_config:
  "api_key (snd (get_hadiths w c a)) = api_key c \<and> base_url (snd (get_hadiths w c a)) = base_url c"
proof (cases "1 \<le> max_limit a \<and> max_limit a \<le> 500")
  case True
  then show ?thesis by (simp add: get_hadiths_client)
next
  case False
  then show ?thesis by (simp add: get_hadiths_invalid)
qed

lemma check_status_config:
  "api_key (snd (check_status w c)) = api_key c \<and> base_url (snd (check_status w c)) = base_url c"
  by (simp add: check_status_client)

lemma calls_config: "api_key (calls w c cs) = api_key c \<and> base_url (calls w c cs) = base_url c"
proof (induction cs arbitrary: c)
  case Nil
  show ?case by simp
next
  case (Cons x cs)
  show ?case
  proof (cases x)
    case (Search a)
    then show ?thesis
      using Cons.IH [of "snd (get_hadiths w c a)"] get_hadiths_config [of w c a] by simp
  next
    case CheckStatus
    then show ?thesis
      using Cons.IH [of "snd (check_status w c)"] check_status_config [of w c] by simp
  qed
qed

text \<open>
  Claim C8. A new client stores the API key it is given and the base URL with its trailing
  slashes stripped, the production URL when none is given; a search, a status check, and so
  every sequence of them, leaves both as they are.
\<close>

theorem client_configuration_fixed:
  "api_key (init lh key url_arg) = key
   \<and> base_url (init lh key (Some u)) = rstrip u ''/''
   \<and> (\<exists>n. u = base_url (init lh key (Some u)) @ replicate n (CHR ''/''))
   \<and> \<not> suffix ''/'' (base_url (init lh key url_arg))
   \<and> base_url (init lh key None) = ''https://deen-api.imaniro.com/api/v1''
   \<and> api_key (snd (get_hadiths w c a)) = api_key c
   \<and> base_url (snd (get_hadiths w c a)) = base_url c
   \<and> api_key (snd (check_status w c)) = api_key c
   \<and> base_url (snd (check_status w c)) = base_url c
   \<and> api_key (calls w c cs) = api_key c
   \<and> base_url (calls w c cs) = base_url c"
proof (intro conjI)
  show "api_key (init lh key url_arg) = key"
    by (simp add: init_def)
  show "base_url (init lh key (Some u)) = rstrip u ''/''"
    by (simp add: init_def)
  show "\<exists>n. u = base_url (init lh key (Some u)) @ replicate n (CHR ''/'')"
    using rstrip_slash_decompose [of u] by (simp add: init_def)
  show "\<not> suffix ''/'' (base_url (init lh key url_arg))"
    using rstrip_slash_no_trailing by (simp add: init_def Let_def)
  show "base_url (init lh key None) = ''https://deen-api.imaniro.com/api/v1''"
    by (simp add: init_def rstrip_def)
qed (simp_all add: get_hadiths_config check_status_config calls_config)

subsection \<open>Filters and extra keyword arguments in the request body\<close>

lemma get_hadiths_params_kwargs:
  "get_hadiths_params a = dict_update (get_hadiths_params (a\<lparr>kwargs := []\<rparr>)) (kwargs a)"
  by (simp add: get_hadiths_params_def)

lemma keys_set_not_None:
  "fst ` set (set_not_None k x d) = (if x = None then {} else {k}) \<union> fst ` set d"
  by (cases x) (simp_all add: set_not_None_def keys_dict_set)

lemma in_keys_named_params:
  "k \<in> keys (get_hadiths_params (a\<lparr>kwargs := []\<rparr>)) \<longleftrightarrow>
     k = ''book'' \<and> book a \<noteq> None
     \<or> k = ''hadithNumber'' \<and> hadith_number a \<noteq> None
     \<or> k = ''narrator'' \<and> narrator a \<noteq> None
     \<or> k = ''category'' \<and> category a \<noteq> None
     \<or> k = ''authenticity'' \<and> authenticity a \<noteq> None
     \<or> k = ''language'' \<or> k = ''maxLimit''"
proof -
  have "keys (get_hadiths_params (a\<lparr>kwargs := []\<rparr>)) =
     insert ''maxLimit'' (insert ''language''
       ((if authenticity a = None then {} else {''authenticity''})
        \<union> ((if category a = None then {} else {''category''})
        \<union> ((if narrator a = None then {} else {''narrator''})
        \<union> ((if hadith_number a = None then {} else {''hadithNumber''})
        \<union> (if book a = None then {} else {''book''}))))))"
    by (simp add: keys_def get_hadiths_params_def keys_dict_set keys_set_not_None
        del: insert_iff Un_iff Un_insert_left Un_insert_right split del: if_split)
  then show ?thesis
    by (simp only: Un_iff insert_iff) (auto split: if_splits)
qed

lemma keys_get_hadiths_params:
  "keys (get_hadiths_params a) = keys (get_hadiths_params (a\<lparr>kwargs := []\<rparr>)) \<union> keys (kwargs a)"
  using keys_dict_update [of "get_hadiths_params (a\<lparr>kwargs := []\<rparr>)" "kwargs a"]
  by (simp add: keys_def get_hadiths_params_kwargs [symmetric])

lemma map_of_get_hadiths_params:
  assumes "distinct (map fst (kwargs a))"
  shows "map_of (get_hadiths_params a) =
           map_of (get_hadiths_params (a\<lparr>kwargs := []\<rparr>)) ++ map_of (kwargs a)"
  using map_of_dict_update [OF assms, of "get_hadiths_params (a\<lparr>kwargs := []\<rparr>)"]
  by (simp add: get_hadiths_params_kwargs [symmetric])

lemma kwargs_ok_keys:
  assumes "kwargs_ok kw"
  shows "''book'' \<notin> keys kw" and "''narrator'' \<notin> keys kw" and "''category'' \<notin> keys kw"
    and "''authenticity'' \<notin> keys kw" and "''language'' \<notin> keys kw"
  using assms by (auto simp: kwargs_ok_def keys_def param_names_def list_all_iff)

lemma search_body:
  assumes "1 \<le> max_limit a" and "max_limit a \<le> 500"
  shows "json_body (last (sent (session (snd (get_hadiths w c a))))) = Some (get_hadiths_params a)"
  using assms by (simp add: get_hadiths_client search_request_def)


text \<open>
  Claim C3, as the code has it. For every search that passes the validation, with extra
  keyword arguments as Python can bind them, the body of the request sent contains
  \<open>book\<close>, \<open>narrator\<close>, \<open>category\<close> and \<open>authenticity\<close> exactly when the caller gave the
  parameter a value other than \<open>None\<close>; it contains \<open>hadithNumber\<close> exactly when the caller
  gave \<open>hadith_number\<close> a value other than \<open>None\<close> or the extra arguments have the key
  \<open>hadithNumber\<close> (with any value, \<open>None\<close> too); it always contains \<open>language\<close> and
  \<open>maxLimit\<close>; the extra arguments are merged last, so each of their keys carries the extra
  value in the body, and every other key carries what the named parameters put there.
\<close>

theorem search_request_body:
  assumes "1 \<le> max_limit a" and "max_limit a \<le> 500" and "kwargs_ok (kwargs a)"
  shows "\<exists>body. json_body (last (sent (session (snd (get_hadiths w c a))))) = Some body
     \<and> (''book'' \<in> keys body \<longleftrightarrow> book a \<noteq> None)
     \<and> (''hadithNumber'' \<in> keys body \<longleftrightarrow>
          hadith_number a \<noteq> None \<or> ''hadithNumber'' \<in> keys (kwargs a))
     \<and> (''narrator'' \<in> keys body \<longleftrightarrow> narrator a \<noteq> None)
     \<and> (''category'' \<in> keys body \<longleftrightarrow> category a \<noteq> None)
     \<and> (''authenticity'' \<in> keys body \<longleftrightarrow> authenticity a \<noteq> None)
     \<and> ''language'' \<in> keys body \<and> ''maxLimit'' \<in> keys body
     \<and> (\<forall>k v. (k, v) \<in> set (kwargs a) \<longrightarrow> dict_get body k = Some v)
     \<and> (\<forall>k. k \<notin> keys (kwargs a) \<longrightarrow>
           dict_get body k = dict_get (get_hadiths_params (a\<lparr>kwargs := []\<rparr>)) k)"
proof -
  let ?body = "get_hadiths_params a"
  let ?named = "get_hadiths_params (a\<lparr>kwargs := []\<rparr>)"
  have dist: "distinct (map fst (kwargs a))"
    using assms(3) by (simp add: kwargs_ok_def)
  have body: "json_body (last (sent (session (snd (get_hadiths w c a))))) = Some ?body"
    using assms(1,2) by (rule search_body)
  have mem: "\<And>k. k \<in> keys ?body \<longleftrightarrow> k \<in> keys ?named \<or> k \<in> keys (kwargs a)"
    by (simp add: keys_get_hadiths_params [of a])
  have b: "''book'' \<in> keys ?body \<longleftrightarrow> book a \<noteq> None"
    using kwargs_ok_keys(1) [OF assms(3)] by (simp add: mem in_keys_named_params)
  have h: "''hadithNumber'' \<in> keys ?body \<longleftrightarrow>
      hadith_number a \<noteq> None \<or> ''hadithNumber'' \<in> keys (kwargs a)"
    by (simp add: mem in_keys_named_params)
  have n: "''narrator'' \<in> keys ?body \<longleftrightarrow> narrator a \<noteq> None"
    using kwargs_ok_keys(2) [OF assms(3)] by (simp add: mem in_keys_named_params)
  have g: "''category'' \<in> keys ?body \<longleftrightarrow> category a \<noteq> None"
    using kwargs_ok_keys(3) [OF assms(3)] by (simp add: mem in_keys_named_params)
  have t: "''authenticity'' \<in> keys ?body \<longleftrightarrow> authenticity a \<noteq> None"
    using kwargs_ok_keys(4) [OF assms(3)] by (simp add: mem in_keys_named_params)
  have l: "''language'' \<in> keys ?body" and m: "''maxLimit'' \<in> keys ?body"
    by (simp_all add: mem in_keys_named_params)
  have map: "map_of ?body = map_of ?named ++ map_of (kwargs a)"
    using dist by (rule map_of_get_hadiths_params)
  have extra: "\<forall>k v. (k, v) \<in> set (kwargs a) \<longrightarrow> dict_get ?body k = Some v"
    using dist by (simp add: dict_get_def map)
  have rest: "\<forall>k. k \<notin> keys (kwargs a) \<longrightarrow> dict_get ?body k = dict_get ?named k"
  proof (intro allI impI)
    fix k assume "k \<notin> keys (kwargs a)"
    then have "map_of (kwargs a) k = None"
      by (simp add: keys_def map_of_eq_None_iff)
    then show "dict_get ?body k = dict_get ?named k"
      by (simp add: dict_get_def map map_add_def)
  qed
  from body b h n g t l m extra rest show ?thesis by blast
qed

text \<open>
  The call \<^verbatim>\<open>get_hadiths(hadithNumber=None)\<close>: no value other than \<open>None\<close> is supplied for
  the filter, and the body has the key \<open>hadithNumber\<close> all the same, bound to \<open>None\<close>.
\<close>

theorem search_request_body_counterexample:
  "kwargs_ok [(''hadithNumber'', JNull)]
   \<and> hadith_number (default_args\<lparr>kwargs := [(''hadithNumber'', JNull)]\<rparr>) = None
   \<and> json_body (last (sent (session (snd
        (get_hadiths (service (Inl (RequestException ''refused''))) example_client
           (default_args\<lparr>kwargs := [(''hadithNumber'', JNull)]\<rparr>))))))
     = Some [(''language'', JStr ''English''), (''maxLimit'', JInt 1), (''hadithNumber'', JNull)]
   \<and> ''hadithNumber'' \<in>
       keys [(''language'', JStr ''English''), (''maxLimit'', JInt 1), (''hadithNumber'', JNull)]"
proof (intro conjI)
  show "kwargs_ok [(''hadithNumber'', JNull)]"
    by (simp add: kwargs_ok_def param_names_def)
  show "hadith_number (default_args\<lparr>kwargs := [(''hadithNumber'', JNull)]\<rparr>) = None"
    by (simp add: default_args_def)
  have "get_hadiths_params (default_args\<lparr>kwargs := [(''hadithNumber'', JNull)]\<rparr>)
      = [(''language'', JStr ''English''), (''maxLimit'', JInt 1), (''hadithNumber'', JNull)]"
    by (simp add: get_hadiths_params_def default_args_def set_not_None_def)
  then show "json_body (last (sent (session (snd
        (get_hadiths (service (Inl (RequestException ''refused''))) example_client
           (default_args\<lparr>kwargs := [(''hadithNumber'', JNull)]\<rparr>))))))
     = Some [(''language'', JStr ''English''), (''maxLimit'', JInt 1), (''hadithNumber'', JNull)]"
    by (simp add: search_body default_args_def)
  show "''hadithNumber'' \<in>
       keys [(''language'', JStr ''English''), (''maxLimit'', JInt 1), (''hadithNumber'', JNull)]"
    by (simp add: keys_def)
qed

theorem search_request_body_witness:
  "json_body (last (sent (session (snd
      (get_hadiths (service (Inl (RequestException ''refused''))) example_client
         (default_args\<lparr>book := Some ''Sahih Muslim'',
            kwargs := [(''hadithNumber'', JStr ''7''), (''maxLimit'', JInt 3)]\<rparr>))))))
     = Some [(''book'', JStr ''Sahih Muslim''), (''language'', JStr ''English''),
             (''maxLimit'', JInt 3), (''hadithNumber'', JStr ''7'')]
   \<and> (\<exists>body. json_body (last (sent (session (snd
        (get_hadiths (service (Inl (RequestException ''refused''))) example_client
           (default_args\<lparr>book := Some ''Sahih Muslim'',
              kwargs := [(''hadithNumber'', JStr ''7''), (''maxLimit'', JInt 3)]\<rparr>)))))) = Some body
        \<and> ''book'' \<in> keys body \<and> ''hadithNumber'' \<in> keys body \<and> ''narrator'' \<notin> keys body
        \<and> ''category'' \<notin> keys body \<and> ''authenticity'' \<notin> keys body
        \<and> ''language'' \<in> keys body \<and> ''maxLimit'' \<in> keys body
        \<and> dict_get body ''maxLimit'' = Some (JInt 3)
        \<and> dict_get body ''hadithNumber'' = Some (JStr ''7''))"
proof -
  let ?a = "default_args\<lparr>book := Some ''Sahih Muslim'',
              kwargs := [(''hadithNumber'', JStr ''7''), (''maxLimit'', JInt 3)]\<rparr>"
  let ?w = "service (Inl (RequestException ''refused''))"
  have r1: "1 \<le> max_limit ?a" and r2: "max_limit ?a \<le> 500"
    by (simp_all add: default_args_def)
  have ok: "kwargs_ok (kwargs ?a)"
    by (simp add: kwargs_ok_def param_names_def)
  have p: "get_hadiths_params ?a =
      [(''book'', JStr ''Sahih Muslim''), (''language'', JStr ''English''),
       (''maxLimit'', JInt 3), (''hadithNumber'', JStr ''7'')]"
    by (simp add: get_hadiths_params_def default_args_def set_not_None_def)
  have first: "json_body (last (sent (session (snd (get_hadiths ?w example_client ?a)))))
     = Some [(''book'', JStr ''Sahih Muslim''), (''language'', JStr ''English''),
             (''maxLimit'', JInt 3), (''hadithNumber'', JStr ''7'')]"
    using search_body [OF r1 r2, of ?w example_client] p by simp
  from search_request_body [OF r1 r2 ok, of ?w example_client]
  obtain body where
    b: "json_body (last (sent (session (snd (get_hadiths ?w example_client ?a))))) = Some body"
    and k: "''book'' \<in> keys body \<longleftrightarrow> book ?a \<noteq> None"
      "''hadithNumber'' \<in> keys body \<longleftrightarrow>
          hadith_number ?a \<noteq> None \<or> ''hadithNumber'' \<in> keys (kwargs ?a)"
      "''narrator'' \<in> keys body \<longleftrightarrow> narrator ?a \<noteq> None"
      "''category'' \<in> keys body \<longleftrightarrow> category ?a \<noteq> None"
      "''authenticity'' \<in> keys body \<longleftrightarrow> authenticity ?a \<noteq> None"
      "''language'' \<in> keys body" "''maxLimit'' \<in> keys body"
    and e: "\<forall>k v. (k, v) \<in> set (kwargs ?a) \<longrightarrow> dict_get body k = Some v"
    by blast
  from k have k': "''book'' \<in> keys body" "''hadithNumber'' \<in> keys body"
    "''narrator'' \<notin> keys body" "''category'' \<notin> keys body" "''authenticity'' \<notin> keys body"
    "''language'' \<in> keys body" "''maxLimit'' \<in> keys body"
    by (simp_all add: default_args_def keys_def)
  from e have e': "dict_get body ''maxLimit'' = Some (JInt 3)"
    "dict_get body ''hadithNumber'' = Some (JStr ''7'')"
    by simp_all
  from first b k' e' show ?thesis by blast
qed


subsection \<open>Only the named limit is validated\<close>

text \<open>
  Whenever the named \<open>max_limit\<close> is in range and the extra arguments bind \<open>maxLimit\<close>, the
  request is sent and its body carries the extra value.
\<close>

lemma extra_maxLimit_in_body:
  assumes "1 \<le> max_limit a" and "max_limit a \<le> 500" and "distinct (map fst (kwargs a))"
    and "(''maxLimit'', v) \<in> set (kwargs a)"
  shows "sent (session (snd (get_hadiths w c a))) = sent (session c) @ [search_request c a]"
    and "json_body (search_request c a) = Some (get_hadiths_params a)"
    and "dict_get (get_hadiths_params a) ''maxLimit'' = Some v"
proof -
  show "sent (session (snd (get_hadiths w c a))) = sent (session c) @ [search_request c a]"
    using assms(1,2) by (simp add: get_hadiths_client)
  show "json_body (search_request c a) = Some (get_hadiths_params a)"
    by (simp add: search_request_def)
  show "dict_get (get_hadiths_params a) ''maxLimit'' = Some v"
    using assms(3,4) map_of_get_hadiths_params [OF assms(3)] by (simp add: dict_get_def)
qed

text \<open>
  Claim C9. There is a search whose named \<open>max_limit\<close> is in [1, 500] and whose extra
  arguments bind \<open>maxLimit\<close> to a value outside [1, 500] that raises no \<open>ValueError\<close> and
  sends a request whose body has that out-of-range value as \<open>maxLimit\<close>.
\<close>

theorem extra_maxLimit_is_not_validated:
  "\<exists>(w :: Hadith world) c a v.
      1 \<le> max_limit a \<and> max_limit a \<le> 500 \<and> kwargs_ok (kwargs a)
      \<and> dict_get (kwargs a) ''maxLimit'' = Some (JInt v) \<and> (v < 1 \<or> 500 < v)
      \<and> (\<forall>m. fst (get_hadiths w c a) \<noteq> Inl (ValueError m))
      \<and> (\<exists>body. json_body (last (sent (session (snd (get_hadiths w c a))))) = Some body
            \<and> dict_get body ''maxLimit'' = Some (JInt v))"
proof -
  let ?w = "service (Inr (ok_response (JDict [(''data'', JList [])])))"
  let ?a = "default_args\<lparr>kwargs := [(''maxLimit'', JInt 501)]\<rparr>"
  have r1: "1 \<le> max_limit ?a" and r2: "max_limit ?a \<le> 500"
    by (simp_all add: default_args_def)
  have ok: "kwargs_ok (kwargs ?a)"
    by (simp add: kwargs_ok_def param_names_def)
  have kw: "dict_get (kwargs ?a) ''maxLimit'' = Some (JInt 501)"
    by (simp add: dict_get_def)
  have res: "fst (get_hadiths ?w example_client ?a) = Inr []"
    using r1 r2
    by (simp add: get_hadiths_result service_def ok_response_def handle_response_def
        except_RequestException_def APIResponse_from_dict_spec_def)
  then have noerr: "\<forall>m. fst (get_hadiths ?w example_client ?a) \<noteq> Inl (ValueError m)"
    by simp
  have body: "json_body (last (sent (session (snd (get_hadiths ?w example_client ?a)))))
      = Some (get_hadiths_params ?a)"
    using r1 r2 by (rule search_body)
  have "get_hadiths_params ?a = [(''language'', JStr ''English''), (''maxLimit'', JInt 501)]"
    by (simp add: get_hadiths_params_def default_args_def set_not_None_def)
  then have lim: "dict_get (get_hadiths_params ?a) ''maxLimit'' = Some (JInt 501)"
    by (simp add: dict_get_def)
  have "(501::int) < 1 \<or> 500 < (501::int)"
    by simp
  with r1 r2 ok kw noerr body lim show ?thesis
    by blast
qed

subsection \<open>The message of a failed status check\<close>

text \<open>
  Claim C10. When a status check is answered with a status other than 200, the message of
  its \<open>DeenAPIError\<close> is \<^verbatim>\<open>Status check failed: \<close> followed by the status code and
  nothing else: it contains the status code, and the body text is no part of it, the
  outcome being the same whatever body text the response has. The generic error of the
  search path, for an unmapped status, has both the status code and the body text in its
  message.
\<close>

theorem check_status_message_without_body:
  assumes "transport w (status_request c) = Inr r" and "status_code r \<noteq> 200"
  shows "fst (check_status w c) =
           Inl (DeenAPIError (''Status check failed: '' @ str_int (status_code r)))
     \<and> sublist (str_int (status_code r)) (''Status check failed: '' @ str_int (status_code r))
     \<and> (\<forall>t. fst (check_status
                  (w\<lparr>transport := (transport w)(status_request c := Inr (r\<lparr>body_text := t\<rparr>))\<rparr>) c)
             = fst (check_status w c))
     \<and> (status_code r \<notin> {401, 402, 404, 429} \<and> status_code r < 500 \<longrightarrow>
          handle_response r =
            Inl (DeenAPIError (''API error: '' @ str_int (status_code r) @ '' - '' @ body_text r))
          \<and> sublist (str_int (status_code r))
               (''API error: '' @ str_int (status_code r) @ '' - '' @ body_text r)
          \<and> sublist (body_text r)
               (''API error: '' @ str_int (status_code r) @ '' - '' @ body_text r))"
proof (intro conjI allI impI)
  show msg: "fst (check_status w c) =
           Inl (DeenAPIError (''Status check failed: '' @ str_int (status_code r)))"
    using assms by (simp add: check_status_result except_RequestException_def)
  show "sublist (str_int (status_code r)) (''Status check failed: '' @ str_int (status_code r))"
    by (rule sublist_end)
  show "fst (check_status
            (w\<lparr>transport := (transport w)(status_request c := Inr (r\<lparr>body_text := t\<rparr>))\<rparr>) c)
         = fst (check_status w c)" for t
    using assms by (simp add: check_status_result except_RequestException_def)
next
  assume "status_code r \<notin> {401, 402, 404, 429} \<and> status_code r < 500"
  with assms(2) show "handle_response r =
      Inl (DeenAPIError (''API error: '' @ str_int (status_code r) @ '' - '' @ body_text r))"
    by (simp add: handle_response_def)
next
  show "sublist (str_int (status_code r))
         (''API error: '' @ str_int (status_code r) @ '' - '' @ body_text r)"
    by (rule sublist_api_error_code)
  show "sublist (body_text r)
         (''API error: '' @ str_int (status_code r) @ '' - '' @ body_text r)"
    by (rule sublist_api_error_text)
qed

theorem check_status_message_without_body_witness:
  "fst (check_status (service (Inr (error_response 403 ''Forbidden''))) example_client)
     = Inl (DeenAPIError ''Status check failed: 403'')
   \<and> fst (check_status (service (Inr (error_response 403 ''Forbidden''))) example_client)
     = fst (check_status (service (Inr (error_response 403 ''Access denied''))) example_client)
   \<and> handle_response (error_response 403 ''Forbidden'')
     = Inl (DeenAPIError ''API error: 403 - Forbidden'')"
proof -
  let ?w = "service (Inr (error_response 403 ''Forbidden''))"
  have t: "transport ?w (status_request example_client) = Inr (error_response 403 ''Forbidden'')"
    by (simp add: service_def)
  have s: "status_code (error_response 403 ''Forbidden'') \<noteq> 200"
    by (simp add: error_response_def)
  have code: "str_int 403 = ''403''"
    by (simp add: str_int_def str_nat.simps digit_char_def)
  note main = check_status_message_without_body [OF t s]
  from main have m: "fst (check_status ?w example_client)
      = Inl (DeenAPIError ''Status check failed: 403'')"
    by (simp add: error_response_def code)
  from main have "fst (check_status (?w\<lparr>transport := (transport ?w)(status_request example_client
        := Inr ((error_response 403 ''Forbidden'')\<lparr>body_text := ''Access denied''\<rparr>))\<rparr>)
        example_client) = fst (check_status ?w example_client)"
    by blast
  moreover have "fst (check_status (?w\<lparr>transport := (transport ?w)(status_request example_client
        := Inr ((error_response 403 ''Forbidden'')\<lparr>body_text := ''Access denied''\<rparr>))\<rparr>)
        example_client)
      = fst (check_status (service (Inr (error_response 403 ''Access denied''))) example_client)"
    by (simp add: check_status_result service_def error_response_def)
  ultimately have i: "fst (check_status ?w example_client)
      = fst (check_status (service (Inr (error_response 403 ''Access denied''))) example_client)"
    by simp
  from main have h: "handle_response (error_response 403 ''Forbidden'')
      = Inl (DeenAPIError ''API error: 403 - Forbidden'')"
    by (simp add: error_response_def code)
  from m i h show ?thesis by blast
qed

end
